theory Spec2Isabelle
  imports Main "HOL-Library.Word"
begin

section \<open>Data model of package api (src/unnamed/part_000)\<close>

text \<open>
  The Go struct \<open>Info\<close>. Types that come from other packages are kept abstract:
  \<open>names.ModelTag\<close> is the type parameter \<open>'mt\<close>, the interface \<open>names.Tag\<close> is
  \<open>'t option\<close> (\<open>None\<close> is the nil interface value) and a macaroon is \<open>'m\<close>, so that
  \<open>[]macaroon.Slice\<close> is a list of lists. A nil slice and an empty slice both have
  length 0 and are the empty list.
\<close>

record ('mt, 't, 'm) Info =
  Addrs :: "string list"
  SNIHostName :: string
  CACert :: string
  ModelTag :: 'mt
  SkipLogin :: bool
  Tag :: "'t option"
  Password :: string
  Macaroons :: "'m list list"
  Nonce :: string

text \<open>
  \<open>network.HostPort\<close> pairs an address with a port number (a Go \<open>int\<close>, on which
  the code does no arithmetic). The address type is the parameter \<open>'a\<close>.
\<close>

record 'a HostPort =
  Address :: 'a
  Port :: int

text \<open>
  \<open>errors.NotValidf\<close> builds an error that satisfies \<open>errors.IsNotValid\<close>; the
  model keeps the formatted message. An error is a value, and \<open>None\<close> of
  \<open>error option\<close> is Go's nil error. The error of the address parser is its
  message (what \<open>%v\<close> prints).
\<close>

datatype error = NotValid string

definition NotValidf :: "string \<Rightarrow> error" where
  "NotValidf msg = NotValid msg"

fun IsNotValid :: "error option \<Rightarrow> bool" where
  "IsNotValid None = False"
| "IsNotValid (Some (NotValid msg)) = True"

text \<open>A panic of the Go runtime, with the value passed to \<open>panic\<close>.\<close>

datatype panic = Panic string

section \<open>The integer set of github.com/juju/utils/set\<close>

text \<open>
  \<open>set.Ints\<close> is a library type (a Go map used as a set). \<open>NewInts\<close> is the empty
  set and \<open>Add\<close> inserts. \<open>Values\<close> ranges over the map, whose iteration order Go
  leaves unspecified and changes from run to run, so it is a relation between the
  set and the slices it may return: each member once, in any order.
\<close>

type_synonym Ints = "int set"

definition NewInts :: Ints where
  "NewInts = {}"

definition Add :: "Ints \<Rightarrow> int \<Rightarrow> Ints" where
  "Add s v = insert v s"

definition Values :: "Ints \<Rightarrow> int list \<Rightarrow> bool" where
  "Values s vs = (set vs = s \<and> distinct vs)"

section \<open>Info.Ports and Info.Validate\<close>

text \<open>
  \<open>network.ParseHostPorts\<close> is called by both methods and is not among the
  sources. Both methods take it as the parameter \<open>parseHostPorts\<close>: a function
  from the address strings to either an error message or the parsed host-ports.
\<close>

type_synonym 'a parser = "string list \<Rightarrow> string + 'a HostPort list"

text \<open>The loop \<open>for _, hp := range hostPorts { ports.Add(hp.Port) }\<close>.\<close>

fun addPorts :: "Ints \<Rightarrow> 'a HostPort list \<Rightarrow> Ints" where
  "addPorts ports [] = ports"
| "addPorts ports (hp # hostPorts) = addPorts (Add ports (Port hp)) hostPorts"

text \<open>
  \<open>Ports parseHostPorts info r\<close> holds when \<open>r\<close> is an outcome of \<open>info.Ports()\<close>:
  \<open>Inl\<close> the panic, or \<open>Inr\<close> a slice that \<open>ports.Values()\<close> may return.
\<close>

definition Ports :: "'a parser \<Rightarrow> ('mt, 't, 'm) Info \<Rightarrow> panic + int list \<Rightarrow> bool" where
  "Ports parseHostPorts info r =
     (case parseHostPorts (Addrs info) of
        Inl err \<Rightarrow> r = Inl (Panic err)
      | Inr hostPorts \<Rightarrow>
          (case r of
             Inl p \<Rightarrow> False
           | Inr vs \<Rightarrow> Values (addPorts NewInts hostPorts) vs))"

definition Validate :: "'a parser \<Rightarrow> ('mt, 't, 'm) Info \<Rightarrow> error option" where
  "Validate parseHostPorts info =
     (if length (Addrs info) = 0 then Some (NotValidf ''missing addresses'')
      else case parseHostPorts (Addrs info) of
        Inl err \<Rightarrow> Some (NotValidf (''host addresses: '' @ err))
      | Inr hostPorts \<Rightarrow>
          if SkipLogin info then
            (if Tag info \<noteq> None then Some (NotValidf ''specifying Tag and SkipLogin'')
             else if Password info \<noteq> '''' then
               Some (NotValidf ''specifying Password and SkipLogin'')
             else if length (Macaroons info) > 0 then
               Some (NotValidf ''specifying Macaroons and SkipLogin'')
             else None)
          else None)"

section \<open>DialOpts and DefaultDialOpts\<close>

text \<open>
  \<open>time.Duration\<close> is an \<open>int64\<close> count of nanoseconds: a 64-bit word read by
  \<open>sint\<close>. The constants are those of Go's package \<open>time\<close>, and \<open>*\<close> on words
  wraps as Go's does.
\<close>

type_synonym Duration = "64 word"

definition Nanosecond :: Duration where
  "Nanosecond = 1"

definition Microsecond :: Duration where
  "Microsecond = 1000 * Nanosecond"

definition Millisecond :: Duration where
  "Millisecond = 1000 * Microsecond"

definition Second :: Duration where
  "Second = 1000 * Millisecond"

definition Minute :: Duration where
  "Minute = 60 * Second"

text \<open>
  The struct \<open>DialOpts\<close>. The clock, the bakery client and the websocket dialer are
  values of other packages: the type parameters \<open>'c\<close>, \<open>'b\<close> and \<open>'d\<close>. A pointer or
  function field that may be nil is an option.
\<close>

record ('c, 'b, 'd) DialOpts =
  CertPath :: string
  Clock :: 'c
  DialAddressInterval :: Duration
  Timeout :: Duration
  RetryDelay :: Duration
  BakeryClient :: "'b option"
  InsecureSkipVerify :: bool
  DialWebsocket :: "'d option"

text \<open>
  The composite literal of \<open>DefaultDialOpts\<close> names four fields; Go gives every
  other field its zero value. \<open>WallClock\<close> stands for \<open>clock.WallClock\<close>.
\<close>

definition DefaultDialOpts :: "'c \<Rightarrow> ('c, 'b, 'd) DialOpts" where
  "DefaultDialOpts WallClock =
     \<lparr> CertPath = '''',
       Clock = WallClock,
       DialAddressInterval = 50 * Millisecond,
       Timeout = 10 * Minute,
       RetryDelay = 2 * Second,
       BakeryClient = None,
       InsecureSkipVerify = False,
       DialWebsocket = None \<rparr>"

section \<open>rackspaceConfigurator (src/provider/rackspace/provider_configurator.go)\<close>

text \<open>
  \<open>nova.RunServerOpts\<close> is declared in another repository. The method touches its
  field \<open>ConfigDrive\<close> only; all its other fields are the extension part of the
  record (\<open>RunServerOpts.more\<close>). The method writes through a pointer: the model
  returns the struct after the call.
\<close>

record RunServerOpts =
  ConfigDrive :: bool

datatype rackspaceConfigurator = RackspaceConfigurator

definition ModifyRunServerOptions ::
  "rackspaceConfigurator \<Rightarrow> 'z RunServerOpts_scheme \<Rightarrow> 'z RunServerOpts_scheme" where
  "ModifyRunServerOptions c options = options\<lparr>ConfigDrive := True\<rparr>"

section \<open>Defaults of the dial options\<close>

text \<open>
  C3. \<open>DefaultDialOpts\<close> returns options whose \<open>DialAddressInterval\<close> is 50
  milliseconds (50000000 ns), whose \<open>Timeout\<close> is 10 minutes (600000000000 ns), whose
  \<open>RetryDelay\<close> is 2 seconds (2000000000 ns), none of the products overflowing 64
  bits, and whose \<open>InsecureSkipVerify\<close> is false.
\<close>

theorem DefaultDialOpts_values:
  "sint (DialAddressInterval (DefaultDialOpts clk)) = 50 * 1000000
   \<and> sint (Timeout (DefaultDialOpts clk)) = 10 * 60 * 1000000000
   \<and> sint (RetryDelay (DefaultDialOpts clk)) = 2 * 1000000000
   \<and> InsecureSkipVerify (DefaultDialOpts clk) = False"
  by (simp add: DefaultDialOpts_def Minute_def Second_def Millisecond_def
      Microsecond_def Nanosecond_def)

section \<open>The rackspace configurator's frame\<close>

text \<open>
  C10. For every \<open>RunServerOpts\<close> value, \<open>ModifyRunServerOptions\<close> sets
  \<open>ConfigDrive\<close> to true and leaves every other field unchanged.
\<close>

theorem ModifyRunServerOptions_frame:
  "ConfigDrive (ModifyRunServerOptions c options) = True
   \<and> RunServerOpts.more (ModifyRunServerOptions c options) = RunServerOpts.more options"
  by (simp add: ModifyRunServerOptions_def)

end
